theory Spec2Isabelle
  imports Main "HOL-Library.Word"
begin

section \<open>The login screen of the records application: \<open>src/screens/Auth/Login.js\<close>\<close>

text \<open>
  The development embeds \<open>handleLogin\<close>, the only function of the screen that branches.
  Everything the function touches outside itself is explicit: the outcome of the HTTP
  call, the token decoder and the key-value store are parameters (an \<open>env\<close>), the
  screen's error message and the store are fields of a state, and every effect the
  function performs is appended, in program order, to a list of events.
\<close>

subsection \<open>Values that arrive from outside\<close>

text \<open>
  \<open>response.data\<close> is a parsed JSON value. The function only asks whether it is falsy
  and whether its type is \<open>number\<close>, so three shapes are kept: nothing usable
  (\<open>null\<close>, \<open>undefined\<close>), a string, and a number. A number of the language is a
  double; the numbers kept here are the safe integers, from \<open>-(2^53 - 1)\<close> to
  \<open>2^53 - 1\<close>, which a double holds exactly: a sign (\<open>True\<close> for minus) and a
  magnitude of 53 bits. Fractions and larger magnitudes are left out, and so is a body
  of another shape (a boolean, an array, an object), which would reach
  \<open>AsyncStorage.setItem\<close> as it is although the store holds strings only.
\<close>

datatype js_data = Absent | Text string | Numeric bool "53 word"

text \<open>The fulfilled promise of \<open>axios.post\<close>: \<open>status\<close>, \<open>data\<close> and \<open>headers['jwt-token']\<close>.\<close>

record http_response =
  status :: int
  data :: js_data
  jwt_token :: "string option"

text \<open>\<open>error.response\<close> of a rejected call: \<open>status\<close> and \<open>data?.message\<close>.\<close>

record http_error =
  err_status :: int
  message :: "string option"

text \<open>
  The object caught by the \<open>catch\<close> clause. Only two of its properties are read:
  \<open>error.response\<close> and the truthiness of \<open>error.request\<close>.
\<close>

record js_error =
  response :: "http_error option"
  request :: bool

datatype post_result = Fulfilled http_response | Rejected js_error

text \<open>The payload returned by \<open>jwtDecode\<close>; the field \<open>authorities\<close> may be missing.\<close>

record jwt_payload =
  authorities :: "string list option"

text \<open>
  The collaborators of the function. \<open>axios_post\<close> gives the settled promise for a
  username and a password; \<open>jwtDecode\<close> gives \<open>None\<close> where the library throws;
  \<open>setItem_rejects key value\<close> tells whether \<open>AsyncStorage.setItem\<close> rejects.
\<close>

record env =
  axios_post :: "string \<Rightarrow> string \<Rightarrow> post_result"
  jwtDecode :: "string \<Rightarrow> jwt_payload option"
  setItem_rejects :: "string \<Rightarrow> string \<Rightarrow> bool"

subsection \<open>State and effects\<close>

text \<open>
  The second argument of \<open>navigation.replace\<close>:
  \<open>{ screen, params: { screen, studentNumber } }\<close>, the last property being optional.
\<close>

record route =
  route_screen :: string
  params_screen :: string
  params_studentNumber :: "string option"

datatype event =
    SetErrorMessage string
  | Alert string string
  | SetItem string string
  | Replace string route

record state =
  errorMessage :: string
  storage :: "string \<rightharpoonup> string"
  events :: "event list"

definition setErrorMessage :: "string \<Rightarrow> state \<Rightarrow> state" where
  "setErrorMessage m s = s\<lparr>errorMessage := m, events := events s @ [SetErrorMessage m]\<rparr>"

definition alert :: "string \<Rightarrow> string \<Rightarrow> state \<Rightarrow> state" where
  "alert title msg s = s\<lparr>events := events s @ [Alert title msg]\<rparr>"

definition replace :: "string \<Rightarrow> route \<Rightarrow> state \<Rightarrow> state" where
  "replace name r s = s\<lparr>events := events s @ [Replace name r]\<rparr>"

text \<open>
  An error thrown by \<open>jwtDecode\<close> or by a rejected \<open>setItem\<close> is not an axios error: it
  has neither \<open>response\<close> nor \<open>request\<close>.
\<close>

definition plain_error :: js_error where
  "plain_error = \<lparr>response = None, request = False\<rparr>"

text \<open>
  A statement inside the \<open>try\<close> block either completes or throws; in both cases the
  state reached so far stays. The first component is the thrown error, if any.
\<close>

type_synonym completion = "js_error option \<times> state"

definition setItem :: "env \<Rightarrow> string \<Rightarrow> string \<Rightarrow> state \<Rightarrow> completion" where
  "setItem e key v s =
     (if setItem_rejects e key v then (Some plain_error, s)
      else (None, s\<lparr>storage := (storage s)(key \<mapsto> v), events := events s @ [SetItem key v]\<rparr>))"

text \<open>Sequencing of awaited statements: a throw skips what follows.\<close>

definition and_then :: "completion \<Rightarrow> (state \<Rightarrow> completion) \<Rightarrow> completion" where
  "and_then c f = (case c of (None, s) \<Rightarrow> f s | (Some err, s) \<Rightarrow> (Some err, s))"

subsection \<open>String primitives of the language\<close>

fun startsWith :: "string \<Rightarrow> string \<Rightarrow> bool" where
  "startsWith s [] = True"
| "startsWith [] (c # cs) = False"
| "startsWith (x # xs) (c # cs) = (x = c \<and> startsWith xs cs)"

text \<open>\<open>String.prototype.includes\<close>: the argument occurs somewhere in the string.\<close>

fun str_includes :: "string \<Rightarrow> string \<Rightarrow> bool" where
  "str_includes [] t = (t = [])"
| "str_includes (x # xs) t = (startsWith (x # xs) t \<or> str_includes xs t)"

definition digit_char :: "nat \<Rightarrow> char" where
  "digit_char d = ''0123456789'' ! d"

fun digits :: "nat \<Rightarrow> string" where
  "digits n = (if n < 10 then [digit_char n] else digits (n div 10) @ [digit_char (n mod 10)])"

declare digits.simps [simp del]

text \<open>
  \<open>Number.prototype.toString\<close> on a safe integer: its decimal numeral, with a minus sign
  for a negative number. Minus zero prints as \<open>0\<close>.
\<close>

definition toString :: "bool \<Rightarrow> 53 word \<Rightarrow> string" where
  "toString neg m =
     (if neg \<and> m \<noteq> 0 then CHR ''-'' # digits (unat m) else digits (unat m))"

text \<open>
  \<open>!studentNumber\<close>: \<open>null\<close>, \<open>undefined\<close>, the empty string and zero (of either sign)
  are falsy.
\<close>

fun falsy :: "js_data \<Rightarrow> bool" where
  "falsy Absent = True"
| "falsy (Text t) = (t = [])"
| "falsy (Numeric neg m) = (m = 0)"

text \<open>
  Lines 54 to 56: a number is replaced by its string form, anything else is kept. The
  value is only used behind the guard \<open>\<not> falsy\<close>, where it is a non-empty string or a
  number other than zero; \<open>Absent\<close> never reaches the store.
\<close>

fun normalized :: "js_data \<Rightarrow> string" where
  "normalized (Numeric neg m) = toString neg m"
| "normalized (Text t) = t"
| "normalized Absent = []"

text \<open>
  Line 67, \<open>decodedToken.authorities || []\<close>: a missing field gives the empty array. An
  array, even an empty one, is truthy and is kept.
\<close>

definition authorities_or_empty :: "jwt_payload \<Rightarrow> string list" where
  "authorities_or_empty decodedToken =
     (case authorities decodedToken of None \<Rightarrow> [] | Some a \<Rightarrow> a)"

text \<open>Line 68, the predicate given to \<open>find\<close>.\<close>

abbreviation role_tag :: "string \<Rightarrow> bool" where
  "role_tag role \<equiv> str_includes role ''ROLE_''"

subsection \<open>The function\<close>

text \<open>
  Lines 75 to 98: the writes to the store and the navigation. Each \<open>await\<close> may throw,
  which leaves the block with the writes made so far.
\<close>

definition persist_and_route :: "env \<Rightarrow> string \<Rightarrow> string \<Rightarrow> string \<Rightarrow> state \<Rightarrow> completion" where
  "persist_and_route e userRole token studentNumber s =
     and_then (setItem e ''role'' userRole s) (\<lambda>s.
     and_then (setItem e ''token'' token s) (\<lambda>s.
       if str_includes userRole ''ROLE_GUEST'' then
         and_then (setItem e ''guestId'' studentNumber s) (\<lambda>s.
           (None, replace ''Main''
              \<lparr>route_screen = ''Guests'', params_screen = ''GuestViolation'',
               params_studentNumber = None\<rparr> s))
       else if str_includes userRole ''ROLE_EMPLOYEE'' then
         and_then (setItem e ''employeeNumber'' studentNumber s) (\<lambda>s.
           (None, replace ''Main''
              \<lparr>route_screen = ''Employees'', params_screen = ''EmployeeReport'',
               params_studentNumber = None\<rparr> s))
       else
         and_then (setItem e ''studentNumber'' studentNumber s) (\<lambda>s.
           (None, replace ''Main''
              \<lparr>route_screen = ''Students'', params_screen = ''StudentViolation'',
               params_studentNumber = Some studentNumber\<rparr> s))))"

text \<open>
  Lines 42 to 101, the \<open>try\<close> block. A \<open>return\<close> is a completion without error. The
  tests \<open>!token\<close> and \<open>!userRole\<close> hold for a missing value and for the empty string.
\<close>

definition try_block :: "env \<Rightarrow> string \<Rightarrow> string \<Rightarrow> state \<Rightarrow> completion" where
  "try_block e username password s =
     (case axios_post e username password of
        Rejected err \<Rightarrow> (Some err, s)
      | Fulfilled resp \<Rightarrow>
          if status resp = 200 then
            if falsy (data resp) then
              (None, setErrorMessage ''Student number not received from server.'' s)
            else
              let studentNumber = normalized (data resp) in
              (case jwt_token resp of
                 None \<Rightarrow> (None, setErrorMessage ''Token not received from server.'' s)
               | Some token \<Rightarrow>
                   if token = [] then
                     (None, setErrorMessage ''Token not received from server.'' s)
                   else
                     (case jwtDecode e token of
                        None \<Rightarrow> (Some plain_error, s)
                      | Some decodedToken \<Rightarrow>
                          let roles = authorities_or_empty decodedToken in
                          (case find role_tag roles of
                             None \<Rightarrow>
                               (None, alert ''Error'' ''Unauthorized role. Please try again.'' s)
                           | Some userRole \<Rightarrow>
                               if userRole = [] then
                                 (None, alert ''Error'' ''Unauthorized role. Please try again.'' s)
                               else persist_and_route e userRole token studentNumber s)))
          else (None, setErrorMessage ''Login failed. Please check your credentials.'' s))"

text \<open>Lines 102 to 116, the \<open>catch\<close> clause.\<close>

definition catch_block :: "js_error \<Rightarrow> state \<Rightarrow> state" where
  "catch_block err s =
     (case response err of
        Some r \<Rightarrow>
          if err_status r = 400 then
            setErrorMessage ''Incorrect username or password. Please try again.'' s
          else
            let serverMessage =
                  (case message r of
                     None \<Rightarrow> ''Invalid request. Please check your input.''
                   | Some m \<Rightarrow>
                       if m = [] then ''Invalid request. Please check your input.'' else m)
            in alert ''Login Error'' serverMessage (setErrorMessage serverMessage s)
      | None \<Rightarrow>
          if request err then
            alert ''Login Error'' ''No response from server. Check network or server status.''
              (setErrorMessage ''No response from server. Check network or server status.'' s)
          else
            alert ''Login Error'' ''Request error. Please try again.''
              (setErrorMessage ''Request error. Please try again.'' s))"

definition handleLogin :: "env \<Rightarrow> string \<Rightarrow> string \<Rightarrow> state \<Rightarrow> state" where
  "handleLogin e username password s =
     (case try_block e username password (setErrorMessage [] s) of
        (None, s') \<Rightarrow> s'
      | (Some err, s') \<Rightarrow> catch_block err s')"


subsection \<open>Vocabulary for the properties\<close>

text \<open>A state in which nothing has happened yet.\<close>

definition fresh :: state where
  "fresh = \<lparr>errorMessage = [], storage = Map.empty, events = []\<rparr>"

text \<open>The effects of one call, in program order: the events it appended.\<close>

definition new_events :: "env \<Rightarrow> string \<Rightarrow> string \<Rightarrow> state \<Rightarrow> event list" where
  "new_events e username password s =
     drop (length (events s)) (events (handleLogin e username password s))"

text \<open>The writes to the store among some events, and the calls of the router.\<close>

fun writes :: "event list \<Rightarrow> (string \<times> string) list" where
  "writes [] = []"
| "writes (SetItem key v # evs) = (key, v) # writes evs"
| "writes (ev # evs) = writes evs"

fun routed :: "event list \<Rightarrow> (string \<times> route) list" where
  "routed [] = []"
| "routed (Replace name r # evs) = (name, r) # routed evs"
| "routed (ev # evs) = routed evs"

text \<open>
  The call was answered with status 200, a truthy body and a non-empty token header,
  and the decoder returned a payload for that token.
\<close>

definition token_decoded ::
  "env \<Rightarrow> string \<Rightarrow> string \<Rightarrow> http_response \<Rightarrow> string \<Rightarrow> jwt_payload \<Rightarrow> bool" where
  "token_decoded e username password resp token payload =
     (axios_post e username password = Fulfilled resp \<and> status resp = 200 \<and>
      \<not> falsy (data resp) \<and> jwt_token resp = Some token \<and> token \<noteq> [] \<and>
      jwtDecode e token = Some payload)"

text \<open>The store rejects no write.\<close>

definition accepts_writes :: "env \<Rightarrow> bool" where
  "accepts_writes e = (\<forall>key v. \<not> setItem_rejects e key v)"

text \<open>The identifier slot and the destination that lines 78 to 98 choose for a tag.\<close>

definition id_key :: "string \<Rightarrow> string" where
  "id_key userRole =
     (if str_includes userRole ''ROLE_GUEST'' then ''guestId''
      else if str_includes userRole ''ROLE_EMPLOYEE'' then ''employeeNumber''
      else ''studentNumber'')"

text \<open>The store accepts the three writes of a session, with the values given.\<close>

definition accepts_session :: "env \<Rightarrow> string \<Rightarrow> string \<Rightarrow> string \<Rightarrow> bool" where
  "accepts_session e userRole token studentNumber =
     (\<not> setItem_rejects e ''role'' userRole \<and> \<not> setItem_rejects e ''token'' token \<and>
      \<not> setItem_rejects e (id_key userRole) studentNumber)"

definition destination :: "string \<Rightarrow> string \<Rightarrow> route" where
  "destination userRole studentNumber =
     (if str_includes userRole ''ROLE_GUEST'' then
        \<lparr>route_screen = ''Guests'', params_screen = ''GuestViolation'',
         params_studentNumber = None\<rparr>
      else if str_includes userRole ''ROLE_EMPLOYEE'' then
        \<lparr>route_screen = ''Employees'', params_screen = ''EmployeeReport'',
         params_studentNumber = None\<rparr>
      else
        \<lparr>route_screen = ''Students'', params_screen = ''StudentViolation'',
         params_studentNumber = Some studentNumber\<rparr>)"


text \<open>
  The conditions under which a session is stored, in the words of the specification:
  the call returned status 200, the body carries a subject identifier, the token header
  is not empty, and the decoded claim set has an entry that contains \<open>ROLE_\<close>. The first
  definition asks for at least one such entry, which is what the code tests; the
  second asks for exactly one, as the data model of the specification words it.
\<close>

definition session_conditions :: "env \<Rightarrow> string \<Rightarrow> string \<Rightarrow> bool" where
  "session_conditions e username password =
     (case axios_post e username password of
        Rejected err \<Rightarrow> False
      | Fulfilled resp \<Rightarrow>
          status resp = 200 \<and> \<not> falsy (data resp) \<and>
          (case jwt_token resp of
             None \<Rightarrow> False
           | Some token \<Rightarrow>
               token \<noteq> [] \<and>
               (case jwtDecode e token of
                  None \<Rightarrow> False
                | Some payload \<Rightarrow> filter role_tag (authorities_or_empty payload) \<noteq> [])))"

definition spec_session_conditions :: "env \<Rightarrow> string \<Rightarrow> string \<Rightarrow> bool" where
  "spec_session_conditions e username password =
     (case axios_post e username password of
        Rejected err \<Rightarrow> False
      | Fulfilled resp \<Rightarrow>
          status resp = 200 \<and> \<not> falsy (data resp) \<and>
          (case jwt_token resp of
             None \<Rightarrow> False
           | Some token \<Rightarrow>
               token \<noteq> [] \<and>
               (case jwtDecode e token of
                  None \<Rightarrow> False
                | Some payload \<Rightarrow>
                    length (filter role_tag (authorities_or_empty payload)) = 1)))"

text \<open>
  \<open>quiet s s'\<close>: between \<open>s\<close> and \<open>s'\<close> the store was not touched and the router was
  not called.
\<close>

definition quiet :: "state \<Rightarrow> state \<Rightarrow> bool" where
  "quiet s s' = (storage s' = storage s \<and> writes (events s') = writes (events s) \<and>
                routed (events s') = routed (events s))"

text \<open>
  Reading a string of decimal digits, most significant first: \<open>None\<close> when a character
  is not a digit.
\<close>

fun position :: "char \<Rightarrow> string \<Rightarrow> nat option" where
  "position c [] = None"
| "position c (x # xs) = (if c = x then Some 0 else map_option Suc (position c xs))"

definition digit_value :: "char \<Rightarrow> nat option" where
  "digit_value c = position c ''0123456789''"

fun read_digits :: "string \<Rightarrow> nat \<Rightarrow> nat option" where
  "read_digits [] acc = Some acc"
| "read_digits (c # cs) acc =
     (case digit_value c of None \<Rightarrow> None | Some d \<Rightarrow> read_digits cs (10 * acc + d))"

text \<open>
  A state seen from an earlier one: \<open>rebase s x\<close> is \<open>x\<close> with the store and the events
  of \<open>s\<close> underneath.
\<close>

definition rebase :: "state \<Rightarrow> state \<Rightarrow> state" where
  "rebase s x = \<lparr>errorMessage = errorMessage x, storage = storage s ++ storage x,
                 events = events s @ events x\<rparr>"

definition rebased :: "state \<Rightarrow> completion \<Rightarrow> completion" where
  "rebased s c = (fst c, rebase s (snd c))"

subsection \<open>Example environments\<close>

text \<open>
  A server that answers every call with status 200, the given body and token header,
  a decoder that returns the given \<open>authorities\<close>, and a store that accepts every write.
\<close>

definition server :: "js_data \<Rightarrow> string option \<Rightarrow> string list option \<Rightarrow> env" where
  "server body header auths =
     \<lparr>axios_post = (\<lambda>username password.
        Fulfilled \<lparr>status = 200, data = body, jwt_token = header\<rparr>),
      jwtDecode = (\<lambda>token. Some \<lparr>authorities = auths\<rparr>),
      setItem_rejects = (\<lambda>key v. False)\<rparr>"

text \<open>A call that is rejected with the given error.\<close>

definition failing :: "js_error \<Rightarrow> env" where
  "failing err =
     \<lparr>axios_post = (\<lambda>username password. Rejected err),
      jwtDecode = (\<lambda>token. None),
      setItem_rejects = (\<lambda>key v. False)\<rparr>"

text \<open>The same environment with a store that rejects every write to one key.\<close>

definition rejecting :: "string \<Rightarrow> env \<Rightarrow> env" where
  "rejecting k e = e\<lparr>setItem_rejects := (\<lambda>key v. key = k)\<rparr>"

section \<open>General facts\<close>

lemmas effect_defs = setErrorMessage_def alert_def replace_def setItem_def and_then_def

lemma role_tag_nonempty: "role_tag r \<Longrightarrow> r \<noteq> []"
  by auto

lemma find_role_tag: "find role_tag xs = Some r \<Longrightarrow> role_tag r \<and> r \<noteq> []"
  by (auto simp: find_Some_iff)

lemma writes_append: "writes (xs @ ys) = writes xs @ writes ys"
  by (induction xs rule: writes.induct) auto

lemma routed_append: "routed (xs @ ys) = routed xs @ routed ys"
  by (induction xs rule: routed.induct) auto

lemma find_first:
  "find P xs = Some r \<Longrightarrow> \<exists>pre post. xs = pre @ r # post \<and> (\<forall>x\<in>set pre. \<not> P x) \<and> P r"
proof (induction xs)
  case Nil
  then show ?case by simp
next
  case (Cons x xs)
  show ?case
  proof (cases "P x")
    case True
    with Cons.prems have "x = r" by simp
    with True have "x # xs = [] @ r # xs \<and> (\<forall>y\<in>set []. \<not> P y) \<and> P r" by simp
    then show ?thesis by blast
  next
    case False
    with Cons.prems have "find P xs = Some r" by simp
    from Cons.IH [OF this] obtain pre post
      where "xs = pre @ r # post" "\<forall>y\<in>set pre. \<not> P y" "P r" by blast
    with False have "x # xs = (x # pre) @ r # post \<and> (\<forall>y\<in>set (x # pre). \<not> P y) \<and> P r"
      by simp
    then show ?thesis by blast
  qed
qed

subsection \<open>A call only appends events\<close>

lemma persist_and_route_events:
  "\<exists>new. events (snd (persist_and_route e r t i s)) = events s @ new"
  by (simp add: persist_and_route_def effect_defs)

lemma try_block_events:
  "\<exists>new. events (snd (try_block e u p s)) = events s @ new"
  using persist_and_route_events
  by (simp add: try_block_def effect_defs Let_def split: post_result.split option.split)

lemma catch_block_events:
  "\<exists>new. events (catch_block err s) = events s @ new"
  by (simp add: catch_block_def effect_defs Let_def split: option.split)

lemma handleLogin_events_prefix:
  "\<exists>new. events (handleLogin e u p s) = events s @ new"
proof -
  obtain a where a: "events (setErrorMessage [] s) = events s @ a"
    by (simp add: setErrorMessage_def)
  obtain b where b: "events (snd (try_block e u p (setErrorMessage [] s))) =
      events (setErrorMessage [] s) @ b"
    using try_block_events by blast
  show ?thesis
  proof (cases "try_block e u p (setErrorMessage [] s)")
    case (Pair c s')
    show ?thesis
    proof (cases c)
      case None
      with Pair a b show ?thesis by (simp add: handleLogin_def)
    next
      case (Some err)
      obtain d where "events (catch_block err s') = events s' @ d"
        using catch_block_events by blast
      with Pair Some a b show ?thesis by (simp add: handleLogin_def)
    qed
  qed
qed

lemma handleLogin_events: "events (handleLogin e u p s) = events s @ new_events e u p s"
  using handleLogin_events_prefix [of e u p s] by (auto simp: new_events_def)

subsection \<open>What a call does is the same from every state\<close>

lemma setErrorMessage_rebase: "setErrorMessage m (rebase s x) = rebase s (setErrorMessage m x)"
  by (simp add: setErrorMessage_def rebase_def)

lemma alert_rebase: "alert a b (rebase s x) = rebase s (alert a b x)"
  by (simp add: alert_def rebase_def)

lemma persist_and_route_rebase:
  "persist_and_route e r t i (rebase s x) = rebased s (persist_and_route e r t i x)"
  by (simp add: persist_and_route_def effect_defs rebase_def rebased_def)

lemma try_block_rebase: "try_block e u p (rebase s x) = rebased s (try_block e u p x)"
  by (simp add: try_block_def persist_and_route_rebase setErrorMessage_rebase alert_rebase
      Let_def rebased_def split: post_result.split option.split)

lemma catch_block_rebase: "catch_block err (rebase s x) = rebase s (catch_block err x)"
  by (simp add: catch_block_def setErrorMessage_rebase alert_rebase Let_def split: option.split)

lemma handleLogin_rebase: "handleLogin e u p (rebase s x) = rebase s (handleLogin e u p x)"
  by (simp add: handleLogin_def setErrorMessage_rebase try_block_rebase catch_block_rebase
      rebased_def split: prod.split option.split)

lemma handleLogin_forgets_message:
  "handleLogin e u p (s\<lparr>errorMessage := m\<rparr>) = handleLogin e u p (s\<lparr>errorMessage := []\<rparr>)"
  for s :: state
  by (simp add: handleLogin_def setErrorMessage_def)

lemma handleLogin_fresh: "handleLogin e u p s = rebase s (handleLogin e u p fresh)"
proof -
  have "s = rebase s (fresh\<lparr>errorMessage := errorMessage s\<rparr>)"
    by (simp add: rebase_def fresh_def)
  then have "handleLogin e u p s =
      rebase s (handleLogin e u p (fresh\<lparr>errorMessage := errorMessage s\<rparr>))"
    using handleLogin_rebase by metis
  also have "handleLogin e u p (fresh\<lparr>errorMessage := errorMessage s\<rparr>) =
      handleLogin e u p fresh"
    using handleLogin_forgets_message [of e u p "errorMessage s" fresh]
    by (simp add: fresh_def)
  finally show ?thesis .
qed

lemma new_events_fresh: "new_events e u p s = events (handleLogin e u p fresh)"
  using handleLogin_fresh [of e u p s] by (simp add: new_events_def rebase_def)

lemma new_events_same: "new_events e u p s = new_events e u p t"
  by (simp add: new_events_fresh)

lemma storage_same:
  "storage s = storage t \<Longrightarrow> storage (handleLogin e u p s) = storage (handleLogin e u p t)"
  using handleLogin_fresh [of e u p s] handleLogin_fresh [of e u p t]
  by (simp add: rebase_def)

subsection \<open>The paths behind a decoded token\<close>

lemma persist_and_route_accepted:
  assumes "accepts_writes e"
  shows "persist_and_route e r t i s =
     (None, s\<lparr>storage := (storage s)(''role'' \<mapsto> r, ''token'' \<mapsto> t, id_key r \<mapsto> i),
              events := events s @ [SetItem ''role'' r, SetItem ''token'' t,
                                    SetItem (id_key r) i,
                                    Replace ''Main'' (destination r i)]\<rparr>)"
  using assms
  by (simp add: persist_and_route_def effect_defs accepts_writes_def id_key_def
      destination_def)

lemma try_block_decoded:
  assumes "token_decoded e u p resp token payload"
  shows "try_block e u p s =
     (case find role_tag (authorities_or_empty payload) of
        None \<Rightarrow> (None, alert ''Error'' ''Unauthorized role. Please try again.'' s)
      | Some r \<Rightarrow> persist_and_route e r token (normalized (data resp)) s)"
  using assms
  by (auto simp: try_block_def token_decoded_def Let_def dest: find_role_tag
      split: option.split)

lemma handleLogin_accepted:
  assumes "token_decoded e u p resp token payload"
    and "find role_tag (authorities_or_empty payload) = Some r"
    and "accepts_writes e"
  shows "handleLogin e u p s =
     s\<lparr>errorMessage := [],
       storage := (storage s)(''role'' \<mapsto> r, ''token'' \<mapsto> token,
                              id_key r \<mapsto> normalized (data resp)),
       events := events s @ [SetErrorMessage [], SetItem ''role'' r, SetItem ''token'' token,
                             SetItem (id_key r) (normalized (data resp)),
                             Replace ''Main'' (destination r (normalized (data resp)))]\<rparr>"
  using assms
  by (simp add: handleLogin_def try_block_decoded persist_and_route_accepted
      setErrorMessage_def)

lemma handleLogin_unauthorized:
  assumes "token_decoded e u p resp token payload"
    and "find role_tag (authorities_or_empty payload) = None"
  shows "handleLogin e u p s =
     s\<lparr>errorMessage := [],
       events := events s @ [SetErrorMessage [],
                             Alert ''Error'' ''Unauthorized role. Please try again.'']\<rparr>"
  using assms
  by (simp add: handleLogin_def try_block_decoded setErrorMessage_def alert_def)

lemma handleLogin_missing_id:
  assumes "axios_post e u p = Fulfilled resp" and "status resp = 200" and "falsy (data resp)"
  shows "handleLogin e u p s =
     s\<lparr>errorMessage := ''Student number not received from server.'',
       events := events s @ [SetErrorMessage [],
                  SetErrorMessage ''Student number not received from server.'']\<rparr>"
  using assms by (simp add: handleLogin_def try_block_def setErrorMessage_def)

lemma server_decoded:
  "\<not> falsy body \<Longrightarrow> token \<noteq> [] \<Longrightarrow>
   token_decoded (server body (Some token) auths) u p
     \<lparr>status = 200, data = body, jwt_token = Some token\<rparr> token \<lparr>authorities = auths\<rparr>"
  by (simp add: token_decoded_def server_def)

lemma server_accepts: "accepts_writes (server body header auths)"
  by (simp add: accepts_writes_def server_def)


lemma new_events_accepted:
  assumes "token_decoded e u p resp token payload"
    and "find role_tag (authorities_or_empty payload) = Some r"
    and "accepts_writes e"
  shows "new_events e u p s =
     [SetErrorMessage [], SetItem ''role'' r, SetItem ''token'' token,
      SetItem (id_key r) (normalized (data resp)),
      Replace ''Main'' (destination r (normalized (data resp)))]"
  by (simp add: new_events_def handleLogin_accepted [OF assms])

lemma server_new_events:
  assumes "\<not> falsy body" and "token \<noteq> []" and "find role_tag auths = Some r"
  shows "new_events (server body (Some token) (Some auths)) u p s =
     [SetErrorMessage [], SetItem ''role'' r, SetItem ''token'' token,
      SetItem (id_key r) (normalized body),
      Replace ''Main'' (destination r (normalized body))]"
  using new_events_accepted [OF server_decoded [OF assms(1,2)] _ server_accepts, of "Some auths" r u p s]
    assms(3)
  by (simp add: authorities_or_empty_def)

subsection \<open>Paths that leave the store and the router alone\<close>

lemma quiet_refl: "quiet s s"
  by (simp add: quiet_def)

lemma quiet_trans: "quiet s t \<Longrightarrow> quiet t u \<Longrightarrow> quiet s u"
  by (simp add: quiet_def)

lemma quiet_setErrorMessage: "quiet s (setErrorMessage m s)"
  by (simp add: quiet_def setErrorMessage_def writes_append routed_append)

lemma quiet_alert: "quiet s (alert a b s)"
  by (simp add: quiet_def alert_def writes_append routed_append)

lemma quiet_catch_block: "quiet s (catch_block err s)"
  by (simp add: catch_block_def Let_def quiet_setErrorMessage
      quiet_trans [OF quiet_setErrorMessage quiet_alert] split: option.split)

lemma find_None_filter: "(find P xs = None) = (filter P xs = [])"
  by (induction xs) auto

lemma try_block_refused:
  assumes "\<not> session_conditions e u p"
  shows "quiet s (snd (try_block e u p s))"
  using assms
  by (auto simp: try_block_def session_conditions_def Let_def quiet_refl quiet_setErrorMessage
      quiet_alert find_None_filter [symmetric]
      split: post_result.splits option.splits if_splits)

lemma handleLogin_refused:
  assumes "\<not> session_conditions e u p"
  shows "quiet s (handleLogin e u p s)"
proof -
  let ?s0 = "setErrorMessage [] s"
  have a: "quiet s ?s0" by (rule quiet_setErrorMessage)
  have b: "quiet ?s0 (snd (try_block e u p ?s0))" by (rule try_block_refused [OF assms])
  show ?thesis
  proof (cases "try_block e u p ?s0")
    case (Pair c s')
    with a b have q: "quiet s s'" by (auto intro: quiet_trans)
    show ?thesis
    proof (cases c)
      case None
      with Pair q show ?thesis by (simp add: handleLogin_def)
    next
      case (Some err)
      with Pair quiet_trans [OF q quiet_catch_block [of s' err]]
      show ?thesis by (simp add: handleLogin_def)
    qed
  qed
qed

lemma quiet_new_events:
  assumes "quiet s (handleLogin e u p s)"
  shows "writes (new_events e u p s) = [] \<and> routed (new_events e u p s) = []"
  using assms handleLogin_events [of e u p s]
  by (simp add: quiet_def writes_append routed_append)

lemma session_conditions_decoded:
  assumes "session_conditions e u p"
  shows "\<exists>resp token payload r. token_decoded e u p resp token payload \<and>
           find role_tag (authorities_or_empty payload) = Some r"
proof -
  from assms obtain resp token payload
    where d: "token_decoded e u p resp token payload"
      and n: "filter role_tag (authorities_or_empty payload) \<noteq> []"
    by (auto simp: session_conditions_def token_decoded_def
        split: post_result.splits option.splits)
  from n have "find role_tag (authorities_or_empty payload) \<noteq> None"
    by (simp add: find_None_filter)
  with d show ?thesis by auto
qed

subsection \<open>Paths that reach the router\<close>



subsection \<open>A store that accepts the writes of the session\<close>

lemma accepts_writes_session: "accepts_writes e \<Longrightarrow> accepts_session e r t i"
  by (simp add: accepts_writes_def accepts_session_def)

lemma persist_and_route_session:
  assumes "accepts_session e r t i"
  shows "persist_and_route e r t i s =
     (None, s\<lparr>storage := (storage s)(''role'' \<mapsto> r, ''token'' \<mapsto> t, id_key r \<mapsto> i),
              events := events s @ [SetItem ''role'' r, SetItem ''token'' t,
                                    SetItem (id_key r) i,
                                    Replace ''Main'' (destination r i)]\<rparr>)"
  using assms
  by (cases "str_includes r ''ROLE_GUEST''"; cases "str_includes r ''ROLE_EMPLOYEE''")
    (simp_all add: persist_and_route_def effect_defs accepts_session_def id_key_def
      destination_def)

lemma handleLogin_session:
  assumes "token_decoded e u p resp token payload"
    and "find role_tag (authorities_or_empty payload) = Some r"
    and "accepts_session e r token (normalized (data resp))"
  shows "handleLogin e u p s =
     s\<lparr>errorMessage := [],
       storage := (storage s)(''role'' \<mapsto> r, ''token'' \<mapsto> token,
                              id_key r \<mapsto> normalized (data resp)),
       events := events s @ [SetErrorMessage [], SetItem ''role'' r, SetItem ''token'' token,
                             SetItem (id_key r) (normalized (data resp)),
                             Replace ''Main'' (destination r (normalized (data resp)))]\<rparr>"
  using assms
  by (simp add: handleLogin_def try_block_decoded persist_and_route_session
      setErrorMessage_def)

subsection \<open>Decimal numerals\<close>

lemma digit_value_digit_char: "d < 10 \<Longrightarrow> digit_value (digit_char d) = Some d"
proof -
  assume "d < 10"
  then have "d \<in> {0, 1, 2, 3, 4, 5, 6, 7, 8, 9}" by auto
  then show ?thesis by (auto simp: digit_value_def digit_char_def)
qed

lemma digit_char_zero: "d < 10 \<Longrightarrow> (digit_char d = CHR ''0'') = (d = 0)"
proof -
  assume "d < 10"
  then have "d \<in> {0, 1, 2, 3, 4, 5, 6, 7, 8, 9}" by auto
  then show ?thesis by (auto simp: digit_char_def)
qed

lemma read_digits_append:
  "read_digits (xs @ ys) acc =
     (case read_digits xs acc of None \<Rightarrow> None | Some v \<Rightarrow> read_digits ys v)"
  by (induction xs arbitrary: acc) (auto split: option.split)

lemma digits_nonempty: "digits n \<noteq> []"
  by (simp add: digits.simps [of n])

lemma read_digits_digits: "read_digits (digits n) 0 = Some n"
proof (induction n rule: digits.induct)
  case (1 n)
  show ?case
  proof (cases "n < 10")
    case True
    then show ?thesis by (simp add: digits.simps [of n] digit_value_digit_char)
  next
    case False
    with 1 have "read_digits (digits (n div 10)) 0 = Some (n div 10)" by simp
    with False show ?thesis
      by (simp add: digits.simps [of n] read_digits_append digit_value_digit_char)
  qed
qed

lemma hd_digits: "0 < n \<Longrightarrow> hd (digits n) \<noteq> CHR ''0''"
proof (induction n rule: digits.induct)
  case (1 n)
  show ?case
  proof (cases "n < 10")
    case True
    with 1(2) show ?thesis by (simp add: digits.simps [of n] digit_char_zero)
  next
    case False
    then have "0 < n div 10" by simp
    with 1 False have "hd (digits (n div 10)) \<noteq> CHR ''0''" by simp
    with False show ?thesis by (simp add: digits.simps [of n] digits_nonempty)
  qed
qed

lemma toString_numeral:
  assumes "m \<noteq> 0"
  shows "\<exists>ds. toString neg m = (if neg then ''-'' else []) @ ds \<and> ds \<noteq> [] \<and>
           hd ds \<noteq> CHR ''0'' \<and> read_digits ds 0 = Some (unat m)"
proof -
  from assms have "0 < unat m" by (simp add: unat_gt_0)
  then have "hd (digits (unat m)) \<noteq> CHR ''0''" by (rule hd_digits)
  moreover have "toString neg m = (if neg then ''-'' else []) @ digits (unat m)"
    using assms by (simp add: toString_def)
  ultimately show ?thesis
    using digits_nonempty read_digits_digits by blast
qed

section \<open>The claims\<close>

subsection \<open>Failures before the token is read\<close>

text \<open>
  Claim C5. Whatever the credentials, when the call is answered with status 200 and a
  body that carries no subject identifier (absent or empty, that is falsy), the screen
  shows the inline message \<open>Student number not received from server.\<close> and nothing
  else happens: no alert, no write to the store, no navigation.
\<close>

theorem missing_subject_id:
  assumes "axios_post e username password = Fulfilled resp"
    and "status resp = 200"
    and "falsy (data resp)"
  shows "handleLogin e username password s =
           s\<lparr>errorMessage := ''Student number not received from server.'',
             events := events s @ [SetErrorMessage [],
                        SetErrorMessage ''Student number not received from server.'']\<rparr>
         \<and> storage (handleLogin e username password s) = storage s
         \<and> writes (new_events e username password s) = []
         \<and> routed (new_events e username password s) = []"
proof -
  from handleLogin_missing_id [OF assms]
  have eq: "\<And>s. handleLogin e username password s =
           s\<lparr>errorMessage := ''Student number not received from server.'',
             events := events s @ [SetErrorMessage [],
                        SetErrorMessage ''Student number not received from server.'']\<rparr>" .
  then show ?thesis by (simp add: new_events_def)
qed

theorem missing_subject_id_witness:
  "handleLogin (server Absent (Some ''tok'') (Some [''ROLE_STUDENT''])) ''bob'' ''correct'' fresh =
     \<lparr>errorMessage = ''Student number not received from server.'', storage = Map.empty,
      events = [SetErrorMessage [],
                SetErrorMessage ''Student number not received from server.'']\<rparr>
   \<and> writes (new_events (server (Text []) None None) ''bob'' ''correct'' fresh) = []
   \<and> routed (new_events (server (Text []) None None) ''bob'' ''correct'' fresh) = []"
proof -
  have a: "axios_post (server Absent (Some ''tok'') (Some [''ROLE_STUDENT''])) ''bob'' ''correct'' =
      Fulfilled \<lparr>status = 200, data = Absent, jwt_token = Some ''tok''\<rparr>"
    by (simp add: server_def)
  have b: "axios_post (server (Text []) None None) ''bob'' ''correct'' =
      Fulfilled \<lparr>status = 200, data = Text [], jwt_token = None\<rparr>"
    by (simp add: server_def)
  show ?thesis
    using missing_subject_id [OF a, of fresh] missing_subject_id [OF b, of fresh]
    by (simp add: fresh_def)
qed

text \<open>
  Claim C6. When the remote service answers with status 400, the inline message is
  exactly \<open>Incorrect username or password. Please try again.\<close>, no alert is shown,
  nothing is written and the router is not called. The call on line 42 passes no
  \<open>validateStatus\<close>, so axios rejects the promise for every status outside 200 to 299:
  a status of 400 reaches the function as \<open>error.response.status\<close>.
\<close>

theorem invalid_credentials:
  assumes "axios_post e username password = Rejected err"
    and "response err = Some r"
    and "err_status r = 400"
  shows "handleLogin e username password s =
           s\<lparr>errorMessage := ''Incorrect username or password. Please try again.'',
             events := events s @ [SetErrorMessage [],
                SetErrorMessage ''Incorrect username or password. Please try again.'']\<rparr>
         \<and> errorMessage (handleLogin e username password s) =
             ''Incorrect username or password. Please try again.''
         \<and> routed (new_events e username password s) = []"
proof -
  have eq: "\<And>s. handleLogin e username password s =
           s\<lparr>errorMessage := ''Incorrect username or password. Please try again.'',
             events := events s @ [SetErrorMessage [],
                SetErrorMessage ''Incorrect username or password. Please try again.'']\<rparr>"
    using assms by (simp add: handleLogin_def try_block_def catch_block_def setErrorMessage_def)
  then show ?thesis by (simp add: new_events_def)
qed

theorem invalid_credentials_witness:
  "handleLogin
     (failing \<lparr>response = Some \<lparr>err_status = 400, message = Some ''Bad credentials''\<rparr>,
               request = True\<rparr>) ''alice'' ''wrongpass'' fresh =
     \<lparr>errorMessage = ''Incorrect username or password. Please try again.'',
      storage = Map.empty,
      events = [SetErrorMessage [],
                SetErrorMessage ''Incorrect username or password. Please try again.'']\<rparr>"
proof -
  let ?r = "\<lparr>err_status = 400, message = Some ''Bad credentials''\<rparr>"
  let ?err = "\<lparr>response = Some ?r, request = True\<rparr>"
  have a: "axios_post (failing ?err) ''alice'' ''wrongpass'' = Rejected ?err"
    by (simp add: failing_def)
  have b: "response ?err = Some ?r" by simp
  have c: "err_status ?r = 400" by simp
  show ?thesis
    using invalid_credentials [OF a b c, of fresh] by (simp add: fresh_def)
qed

text \<open>
  Claim C8. When the request was sent and no response came back (the caught error has a
  \<open>request\<close> and no \<open>response\<close>), the screen shows the message
  \<open>No response from server. Check network or server status.\<close> inline and in an alert,
  writes nothing to the store and does not call the router. The attempt leaves nothing
  behind that a later attempt could see: submitted again, in whatever environment, the
  function performs the same effects and reaches the same store as if the failed
  attempt had not happened.
\<close>

theorem no_response:
  assumes "axios_post e username password = Rejected err"
    and "response err = None"
    and "request err"
  shows "handleLogin e username password s =
           s\<lparr>errorMessage := ''No response from server. Check network or server status.'',
             events := events s @ [SetErrorMessage [],
                SetErrorMessage ''No response from server. Check network or server status.'',
                Alert ''Login Error''
                  ''No response from server. Check network or server status.'']\<rparr>
         \<and> storage (handleLogin e username password s) = storage s
         \<and> writes (new_events e username password s) = []
         \<and> routed (new_events e username password s) = []
         \<and> new_events e' username' password' (handleLogin e username password s) =
             new_events e' username' password' s
         \<and> storage (handleLogin e' username' password' (handleLogin e username password s)) =
             storage (handleLogin e' username' password' s)"
proof -
  have eq: "\<And>s. handleLogin e username password s =
           s\<lparr>errorMessage := ''No response from server. Check network or server status.'',
             events := events s @ [SetErrorMessage [],
                SetErrorMessage ''No response from server. Check network or server status.'',
                Alert ''Login Error''
                  ''No response from server. Check network or server status.'']\<rparr>"
    using assms
    by (simp add: handleLogin_def try_block_def catch_block_def setErrorMessage_def alert_def)
  have st: "storage (handleLogin e username password s) = storage s"
    by (simp add: eq)
  show ?thesis
    using eq [of s] st storage_same [OF st, of e' username' password']
      new_events_same [of e' username' password' "handleLogin e username password s" s]
    by (simp add: new_events_def)
qed

theorem no_response_witness:
  "handleLogin (failing \<lparr>response = None, request = True\<rparr>) ''bob'' ''correct'' fresh =
     \<lparr>errorMessage = ''No response from server. Check network or server status.'',
      storage = Map.empty,
      events = [SetErrorMessage [],
                SetErrorMessage ''No response from server. Check network or server status.'',
                Alert ''Login Error''
                  ''No response from server. Check network or server status.'']\<rparr>
   \<and> storage (handleLogin (server (Text ''2021001234'') (Some ''tok'') (Some [''ROLE_STUDENT'']))
        ''bob'' ''correct''
        (handleLogin (failing \<lparr>response = None, request = True\<rparr>) ''bob'' ''correct'' fresh)) =
      storage (handleLogin (server (Text ''2021001234'') (Some ''tok'') (Some [''ROLE_STUDENT'']))
        ''bob'' ''correct'' fresh)"
proof -
  let ?err = "\<lparr>response = None, request = True\<rparr>"
  have a: "axios_post (failing ?err) ''bob'' ''correct'' = Rejected ?err"
    by (simp add: failing_def)
  have b: "response ?err = None" by simp
  have c: "request ?err" by simp
  note w = no_response [OF a b c, of fresh
      "server (Text ''2021001234'') (Some ''tok'') (Some [''ROLE_STUDENT''])"
      "''bob''" "''correct''"]
  from w have "handleLogin (failing ?err) ''bob'' ''correct'' fresh =
      fresh\<lparr>errorMessage := ''No response from server. Check network or server status.'',
        events := events fresh @ [SetErrorMessage [],
          SetErrorMessage ''No response from server. Check network or server status.'',
          Alert ''Login Error''
            ''No response from server. Check network or server status.'']\<rparr>"
    by blast
  then have first: "handleLogin (failing ?err) ''bob'' ''correct'' fresh =
     \<lparr>errorMessage = ''No response from server. Check network or server status.'',
      storage = Map.empty,
      events = [SetErrorMessage [],
                SetErrorMessage ''No response from server. Check network or server status.'',
                Alert ''Login Error''
                  ''No response from server. Check network or server status.'']\<rparr>"
    by (simp add: fresh_def)
  from w first show ?thesis by blast
qed

subsection \<open>Tokens without a role\<close>

text \<open>
  Claim C9. When the call is answered with status 200, a subject identifier and a
  token, and the decoded payload has no \<open>authorities\<close> field, the function takes the
  empty sequence in its place and ends with the alert
  \<open>Unauthorized role. Please try again.\<close>: no error is thrown (the \<open>catch\<close> clause would
  show \<open>Request error\<close>), nothing is written and the router is not called.
\<close>

theorem no_authorities_field:
  assumes "token_decoded e username password resp token payload"
    and "authorities payload = None"
  shows "authorities_or_empty payload = []
         \<and> handleLogin e username password s =
           s\<lparr>errorMessage := [],
             events := events s @ [SetErrorMessage [],
                        Alert ''Error'' ''Unauthorized role. Please try again.'']\<rparr>
         \<and> storage (handleLogin e username password s) = storage s
         \<and> writes (new_events e username password s) = []
         \<and> routed (new_events e username password s) = []"
proof -
  have roles: "authorities_or_empty payload = []"
    using assms(2) by (simp add: authorities_or_empty_def)
  then have "find role_tag (authorities_or_empty payload) = None" by simp
  from handleLogin_unauthorized [OF assms(1) this]
  have eq: "\<And>s. handleLogin e username password s =
           s\<lparr>errorMessage := [],
             events := events s @ [SetErrorMessage [],
                        Alert ''Error'' ''Unauthorized role. Please try again.'']\<rparr>" .
  then show ?thesis using roles by (simp add: new_events_def)
qed

theorem no_authorities_field_witness:
  "handleLogin (server (Text ''2021001234'') (Some ''tok'') None) ''bob'' ''correct'' fresh =
     \<lparr>errorMessage = [], storage = Map.empty,
      events = [SetErrorMessage [], Alert ''Error'' ''Unauthorized role. Please try again.'']\<rparr>"
proof -
  have a: "token_decoded (server (Text ''2021001234'') (Some ''tok'') None) ''bob'' ''correct''
      \<lparr>status = 200, data = Text ''2021001234'', jwt_token = Some ''tok''\<rparr> ''tok''
      \<lparr>authorities = None\<rparr>"
    by (simp add: server_decoded)
  have b: "authorities \<lparr>authorities = None\<rparr> = None" by simp
  show ?thesis
    using no_authorities_field [OF a b, of fresh] by (simp add: fresh_def)
qed

subsection \<open>The role of a decoded token\<close>

text \<open>
  Claim C2. When the decoded \<open>authorities\<close> hold more than one entry that contains
  \<open>ROLE_\<close>, the role is the first of them in the order of the sequence: it is what
  \<open>find\<close> returns on line 68, and no entry before it contains \<open>ROLE_\<close>. Where the login
  goes on to the store and the router, it is the value stored under \<open>role\<close> and it
  selects the identifier slot and the destination. For the sequence
  \<open>["ROLE_EMPLOYEE", "ROLE_ADMIN_SHADOW"]\<close> the role is the employee's: the identifier
  goes to \<open>employeeNumber\<close> and the router is sent to the employee area.
\<close>

theorem first_role_wins:
  assumes "authorities payload = Some a"
    and "1 < length (filter role_tag a)"
  shows "(\<exists>pre userRole post.
            a = pre @ userRole # post \<and> (\<forall>x\<in>set pre. \<not> role_tag x) \<and> role_tag userRole \<and>
            find role_tag (authorities_or_empty payload) = Some userRole \<and>
            (token_decoded e username password resp token payload \<and> accepts_writes e \<longrightarrow>
               writes (new_events e username password s) =
                 [(''role'', userRole), (''token'', token),
                  (id_key userRole, normalized (data resp))] \<and>
               routed (new_events e username password s) =
                 [(''Main'', destination userRole (normalized (data resp)))]))
         \<and> (a = [''ROLE_EMPLOYEE'', ''ROLE_ADMIN_SHADOW''] \<longrightarrow>
            find role_tag (authorities_or_empty payload) = Some ''ROLE_EMPLOYEE'' \<and>
            (token_decoded e username password resp token payload \<and> accepts_writes e \<longrightarrow>
               writes (new_events e username password s) =
                 [(''role'', ''ROLE_EMPLOYEE''), (''token'', token),
                  (''employeeNumber'', normalized (data resp))] \<and>
               routed (new_events e username password s) =
                 [(''Main'', \<lparr>route_screen = ''Employees'', params_screen = ''EmployeeReport'',
                              params_studentNumber = None\<rparr>)]))"
proof -
  have roles: "authorities_or_empty payload = a"
    using assms(1) by (simp add: authorities_or_empty_def)
  from assms(2) have "filter role_tag a \<noteq> []" by auto
  then have "find role_tag a \<noteq> None" by (simp add: find_None_filter)
  then obtain r where r: "find role_tag a = Some r" by auto
  from find_first [OF r] obtain pre post
    where dec: "a = pre @ r # post" "\<forall>x\<in>set pre. \<not> role_tag x" "role_tag r" by blast
  have found: "find role_tag (authorities_or_empty payload) = Some r"
    using r roles by simp
  have effects: "token_decoded e username password resp token payload \<and> accepts_writes e \<longrightarrow>
               writes (new_events e username password s) =
                 [(''role'', r), (''token'', token), (id_key r, normalized (data resp))] \<and>
               routed (new_events e username password s) =
                 [(''Main'', destination r (normalized (data resp)))]"
  proof
    assume "token_decoded e username password resp token payload \<and> accepts_writes e"
    then have d: "token_decoded e username password resp token payload"
      and w: "accepts_writes e" by simp_all
    show "writes (new_events e username password s) =
                 [(''role'', r), (''token'', token), (id_key r, normalized (data resp))] \<and>
               routed (new_events e username password s) =
                 [(''Main'', destination r (normalized (data resp)))]"
      by (simp add: new_events_accepted [OF d found w])
  qed
  have general: "\<exists>pre userRole post.
            a = pre @ userRole # post \<and> (\<forall>x\<in>set pre. \<not> role_tag x) \<and> role_tag userRole \<and>
            find role_tag (authorities_or_empty payload) = Some userRole \<and>
            (token_decoded e username password resp token payload \<and> accepts_writes e \<longrightarrow>
               writes (new_events e username password s) =
                 [(''role'', userRole), (''token'', token),
                  (id_key userRole, normalized (data resp))] \<and>
               routed (new_events e username password s) =
                 [(''Main'', destination userRole (normalized (data resp)))])"
    using dec found effects by blast
  have example: "a = [''ROLE_EMPLOYEE'', ''ROLE_ADMIN_SHADOW''] \<longrightarrow>
            find role_tag (authorities_or_empty payload) = Some ''ROLE_EMPLOYEE'' \<and>
            (token_decoded e username password resp token payload \<and> accepts_writes e \<longrightarrow>
               writes (new_events e username password s) =
                 [(''role'', ''ROLE_EMPLOYEE''), (''token'', token),
                  (''employeeNumber'', normalized (data resp))] \<and>
               routed (new_events e username password s) =
                 [(''Main'', \<lparr>route_screen = ''Employees'', params_screen = ''EmployeeReport'',
                              params_studentNumber = None\<rparr>)])"
  proof
    assume "a = [''ROLE_EMPLOYEE'', ''ROLE_ADMIN_SHADOW'']"
    with r have "r = ''ROLE_EMPLOYEE''" by simp
    with found effects
    show "find role_tag (authorities_or_empty payload) = Some ''ROLE_EMPLOYEE'' \<and>
            (token_decoded e username password resp token payload \<and> accepts_writes e \<longrightarrow>
               writes (new_events e username password s) =
                 [(''role'', ''ROLE_EMPLOYEE''), (''token'', token),
                  (''employeeNumber'', normalized (data resp))] \<and>
               routed (new_events e username password s) =
                 [(''Main'', \<lparr>route_screen = ''Employees'', params_screen = ''EmployeeReport'',
                              params_studentNumber = None\<rparr>)])"
      by (simp add: id_key_def destination_def)
  qed
  from general example show ?thesis by blast
qed

theorem first_role_wins_witness:
  "find role_tag (authorities_or_empty
      \<lparr>authorities = Some [''ROLE_EMPLOYEE'', ''ROLE_ADMIN_SHADOW'']\<rparr>) = Some ''ROLE_EMPLOYEE''
   \<and> writes (new_events (server (Text ''E-1007'') (Some ''tok'')
             (Some [''ROLE_EMPLOYEE'', ''ROLE_ADMIN_SHADOW''])) ''eve'' ''pw'' fresh) =
     [(''role'', ''ROLE_EMPLOYEE''), (''token'', ''tok''), (''employeeNumber'', ''E-1007'')]
   \<and> routed (new_events (server (Text ''E-1007'') (Some ''tok'')
             (Some [''ROLE_EMPLOYEE'', ''ROLE_ADMIN_SHADOW''])) ''eve'' ''pw'' fresh) =
     [(''Main'', \<lparr>route_screen = ''Employees'', params_screen = ''EmployeeReport'',
                  params_studentNumber = None\<rparr>)]"
proof -
  let ?auths = "[''ROLE_EMPLOYEE'', ''ROLE_ADMIN_SHADOW'']"
  let ?e = "server (Text ''E-1007'') (Some ''tok'') (Some ?auths)"
  have a: "authorities \<lparr>authorities = Some ?auths\<rparr> = Some ?auths" by simp
  have b: "1 < length (filter role_tag ?auths)" by simp
  have c: "token_decoded ?e ''eve'' ''pw''
      \<lparr>status = 200, data = Text ''E-1007'', jwt_token = Some ''tok''\<rparr> ''tok''
      \<lparr>authorities = Some ?auths\<rparr>"
    by (simp add: server_decoded)
  have d: "accepts_writes ?e" by (rule server_accepts)
  show ?thesis
    using first_role_wins [OF a b, where e = ?e and username = "''eve''" and password = "''pw''"
        and resp = "\<lparr>status = 200, data = Text ''E-1007'', jwt_token = Some ''tok''\<rparr>"
        and token = "''tok''" and s = fresh] c d
    by simp
qed

text \<open>
  Claim C3, as amended. The tag found by line 68 is mapped by substring tests taken in
  order: a tag that contains \<open>ROLE_GUEST\<close> is a guest; a tag that contains
  \<open>ROLE_EMPLOYEE\<close> and not \<open>ROLE_GUEST\<close> is an employee; every other tag is a student.
  When no entry contains \<open>ROLE_\<close> the function shows the alert
  \<open>Unauthorized role. Please try again.\<close>, writes nothing and does not navigate.
\<close>

theorem role_by_tag:
  assumes "token_decoded e username password resp token payload"
    and "accepts_writes e"
  shows "((\<forall>x\<in>set (authorities_or_empty payload). \<not> role_tag x) \<longrightarrow>
            handleLogin e username password s =
              s\<lparr>errorMessage := [],
                events := events s @ [SetErrorMessage [],
                           Alert ''Error'' ''Unauthorized role. Please try again.'']\<rparr>
            \<and> storage (handleLogin e username password s) = storage s
            \<and> writes (new_events e username password s) = []
            \<and> routed (new_events e username password s) = [])
       \<and> (find role_tag (authorities_or_empty payload) = Some userRole \<longrightarrow>
            (str_includes userRole ''ROLE_GUEST'' \<longrightarrow>
               writes (new_events e username password s) =
                 [(''role'', userRole), (''token'', token),
                  (''guestId'', normalized (data resp))]
               \<and> routed (new_events e username password s) =
                 [(''Main'', \<lparr>route_screen = ''Guests'', params_screen = ''GuestViolation'',
                              params_studentNumber = None\<rparr>)])
          \<and> (\<not> str_includes userRole ''ROLE_GUEST'' \<and> str_includes userRole ''ROLE_EMPLOYEE'' \<longrightarrow>
               writes (new_events e username password s) =
                 [(''role'', userRole), (''token'', token),
                  (''employeeNumber'', normalized (data resp))]
               \<and> routed (new_events e username password s) =
                 [(''Main'', \<lparr>route_screen = ''Employees'', params_screen = ''EmployeeReport'',
                              params_studentNumber = None\<rparr>)])
          \<and> (\<not> str_includes userRole ''ROLE_GUEST'' \<and> \<not> str_includes userRole ''ROLE_EMPLOYEE'' \<longrightarrow>
               writes (new_events e username password s) =
                 [(''role'', userRole), (''token'', token),
                  (''studentNumber'', normalized (data resp))]
               \<and> routed (new_events e username password s) =
                 [(''Main'', \<lparr>route_screen = ''Students'', params_screen = ''StudentViolation'',
                              params_studentNumber = Some (normalized (data resp))\<rparr>)]))"
proof (intro conjI impI)
  assume none: "\<forall>x\<in>set (authorities_or_empty payload). \<not> role_tag x"
  then have "find role_tag (authorities_or_empty payload) = None"
    by (simp add: find_None_iff)
  from handleLogin_unauthorized [OF assms(1) this]
  have eq: "\<And>s. handleLogin e username password s =
              s\<lparr>errorMessage := [],
                events := events s @ [SetErrorMessage [],
                           Alert ''Error'' ''Unauthorized role. Please try again.'']\<rparr>" .
  show "handleLogin e username password s =
              s\<lparr>errorMessage := [],
                events := events s @ [SetErrorMessage [],
                           Alert ''Error'' ''Unauthorized role. Please try again.'']\<rparr>"
    by (rule eq)
  show "storage (handleLogin e username password s) = storage s"
    by (simp add: eq)
  show "writes (new_events e username password s) = []"
    by (simp add: eq new_events_def)
  show "routed (new_events e username password s) = []"
    by (simp add: eq new_events_def)
next
  assume r: "find role_tag (authorities_or_empty payload) = Some userRole"
  note ev = new_events_accepted [OF assms(1) r assms(2), of s]
  {
    assume "str_includes userRole ''ROLE_GUEST''"
    then show "writes (new_events e username password s) =
                 [(''role'', userRole), (''token'', token),
                  (''guestId'', normalized (data resp))]"
      and "routed (new_events e username password s) =
                 [(''Main'', \<lparr>route_screen = ''Guests'', params_screen = ''GuestViolation'',
                              params_studentNumber = None\<rparr>)]"
      by (simp_all add: ev id_key_def destination_def)
  }
  {
    assume "\<not> str_includes userRole ''ROLE_GUEST'' \<and> str_includes userRole ''ROLE_EMPLOYEE''"
    then show "writes (new_events e username password s) =
                 [(''role'', userRole), (''token'', token),
                  (''employeeNumber'', normalized (data resp))]"
      and "routed (new_events e username password s) =
                 [(''Main'', \<lparr>route_screen = ''Employees'', params_screen = ''EmployeeReport'',
                              params_studentNumber = None\<rparr>)]"
      by (simp_all add: ev id_key_def destination_def)
  }
  {
    assume "\<not> str_includes userRole ''ROLE_GUEST'' \<and> \<not> str_includes userRole ''ROLE_EMPLOYEE''"
    then show "writes (new_events e username password s) =
                 [(''role'', userRole), (''token'', token),
                  (''studentNumber'', normalized (data resp))]"
      and "routed (new_events e username password s) =
                 [(''Main'', \<lparr>route_screen = ''Students'', params_screen = ''StudentViolation'',
                              params_studentNumber = Some (normalized (data resp))\<rparr>)]"
      by (simp_all add: ev id_key_def destination_def)
  }
qed

theorem role_by_tag_witness:
  "writes (new_events (server (Text ''G-5'') (Some ''tok'') (Some [''USER'', ''ROLE_GUEST'']))
      ''gus'' ''pw'' fresh) =
     [(''role'', ''ROLE_GUEST''), (''token'', ''tok''), (''guestId'', ''G-5'')]
   \<and> routed (new_events (server (Text ''G-5'') (Some ''tok'') (Some [''USER'', ''ROLE_GUEST'']))
      ''gus'' ''pw'' fresh) =
     [(''Main'', \<lparr>route_screen = ''Guests'', params_screen = ''GuestViolation'',
                  params_studentNumber = None\<rparr>)]
   \<and> writes (new_events (server (Text ''E-1007'') (Some ''tok'') (Some [''ROLE_EMPLOYEE'']))
      ''eve'' ''pw'' fresh) =
     [(''role'', ''ROLE_EMPLOYEE''), (''token'', ''tok''), (''employeeNumber'', ''E-1007'')]
   \<and> routed (new_events (server (Text ''E-1007'') (Some ''tok'') (Some [''ROLE_EMPLOYEE'']))
      ''eve'' ''pw'' fresh) =
     [(''Main'', \<lparr>route_screen = ''Employees'', params_screen = ''EmployeeReport'',
                  params_studentNumber = None\<rparr>)]
   \<and> writes (new_events (server (Text ''A-1'') (Some ''tok'') (Some [''ROLE_ADMIN'']))
      ''ada'' ''pw'' fresh) =
     [(''role'', ''ROLE_ADMIN''), (''token'', ''tok''), (''studentNumber'', ''A-1'')]
   \<and> routed (new_events (server (Text ''A-1'') (Some ''tok'') (Some [''ROLE_ADMIN'']))
      ''ada'' ''pw'' fresh) =
     [(''Main'', \<lparr>route_screen = ''Students'', params_screen = ''StudentViolation'',
                  params_studentNumber = Some ''A-1''\<rparr>)]
   \<and> handleLogin (server (Text ''G-5'') (Some ''tok'') (Some [''USER''])) ''gus'' ''pw'' fresh =
     fresh\<lparr>errorMessage := [],
       events := events fresh @ [SetErrorMessage [],
                  Alert ''Error'' ''Unauthorized role. Please try again.'']\<rparr>"
proof -
  let ?guest = "server (Text ''G-5'') (Some ''tok'') (Some [''USER'', ''ROLE_GUEST''])"
  let ?employee = "server (Text ''E-1007'') (Some ''tok'') (Some [''ROLE_EMPLOYEE''])"
  let ?other = "server (Text ''A-1'') (Some ''tok'') (Some [''ROLE_ADMIN''])"
  let ?none = "server (Text ''G-5'') (Some ''tok'') (Some [''USER''])"
  have a: "token_decoded ?guest ''gus'' ''pw''
      \<lparr>status = 200, data = Text ''G-5'', jwt_token = Some ''tok''\<rparr> ''tok''
      \<lparr>authorities = Some [''USER'', ''ROLE_GUEST'']\<rparr>"
    by (simp add: server_decoded)
  have b: "token_decoded ?employee ''eve'' ''pw''
      \<lparr>status = 200, data = Text ''E-1007'', jwt_token = Some ''tok''\<rparr> ''tok''
      \<lparr>authorities = Some [''ROLE_EMPLOYEE'']\<rparr>"
    by (simp add: server_decoded)
  have c: "token_decoded ?other ''ada'' ''pw''
      \<lparr>status = 200, data = Text ''A-1'', jwt_token = Some ''tok''\<rparr> ''tok''
      \<lparr>authorities = Some [''ROLE_ADMIN'']\<rparr>"
    by (simp add: server_decoded)
  have d: "token_decoded ?none ''gus'' ''pw''
      \<lparr>status = 200, data = Text ''G-5'', jwt_token = Some ''tok''\<rparr> ''tok''
      \<lparr>authorities = Some [''USER'']\<rparr>"
    by (simp add: server_decoded)
  have guest: "writes (new_events ?guest ''gus'' ''pw'' fresh) =
     [(''role'', ''ROLE_GUEST''), (''token'', ''tok''), (''guestId'', ''G-5'')]
   \<and> routed (new_events ?guest ''gus'' ''pw'' fresh) =
     [(''Main'', \<lparr>route_screen = ''Guests'', params_screen = ''GuestViolation'',
                  params_studentNumber = None\<rparr>)]"
    using role_by_tag [OF a server_accepts, where userRole = "''ROLE_GUEST''" and s = fresh]
    by (simp add: authorities_or_empty_def)
  have employee: "writes (new_events ?employee ''eve'' ''pw'' fresh) =
     [(''role'', ''ROLE_EMPLOYEE''), (''token'', ''tok''), (''employeeNumber'', ''E-1007'')]
   \<and> routed (new_events ?employee ''eve'' ''pw'' fresh) =
     [(''Main'', \<lparr>route_screen = ''Employees'', params_screen = ''EmployeeReport'',
                  params_studentNumber = None\<rparr>)]"
    using role_by_tag [OF b server_accepts, where userRole = "''ROLE_EMPLOYEE''" and s = fresh]
    by (simp add: authorities_or_empty_def)
  have other: "writes (new_events ?other ''ada'' ''pw'' fresh) =
     [(''role'', ''ROLE_ADMIN''), (''token'', ''tok''), (''studentNumber'', ''A-1'')]
   \<and> routed (new_events ?other ''ada'' ''pw'' fresh) =
     [(''Main'', \<lparr>route_screen = ''Students'', params_screen = ''StudentViolation'',
                  params_studentNumber = Some ''A-1''\<rparr>)]"
    using role_by_tag [OF c server_accepts, where userRole = "''ROLE_ADMIN''" and s = fresh]
    by (simp add: authorities_or_empty_def)
  have none: "handleLogin ?none ''gus'' ''pw'' fresh =
     fresh\<lparr>errorMessage := [],
       events := events fresh @ [SetErrorMessage [],
                  Alert ''Error'' ''Unauthorized role. Please try again.'']\<rparr>"
    using role_by_tag [OF d server_accepts, where s = fresh]
    by (simp add: authorities_or_empty_def)
  from guest employee other none show ?thesis by blast
qed

text \<open>
  Without the order the statement is false: the tag \<open>ROLE_EMPLOYEE,ROLE_GUEST\<close> contains
  \<open>ROLE_EMPLOYEE\<close>, and line 78 sends it to the guest slot and the guest area.
\<close>

theorem role_by_tag_counterexample:
  "str_includes ''ROLE_EMPLOYEE,ROLE_GUEST'' ''ROLE_EMPLOYEE''
   \<and> writes (new_events (server (Text ''E-1007'') (Some ''tok'')
        (Some [''ROLE_EMPLOYEE,ROLE_GUEST''])) ''eve'' ''pw'' fresh) =
      [(''role'', ''ROLE_EMPLOYEE,ROLE_GUEST''), (''token'', ''tok''), (''guestId'', ''E-1007'')]
   \<and> routed (new_events (server (Text ''E-1007'') (Some ''tok'')
        (Some [''ROLE_EMPLOYEE,ROLE_GUEST''])) ''eve'' ''pw'' fresh) =
      [(''Main'', \<lparr>route_screen = ''Guests'', params_screen = ''GuestViolation'',
                   params_studentNumber = None\<rparr>)]"
  by (simp add: server_new_events id_key_def destination_def)

text \<open>
  Claim C4, as amended. After a login that reaches line 75 with a store that accepts
  the writes, the router is called exactly once, with \<open>Main\<close> and the area of the role.
  The identifier is a parameter of the entry view for the student area only; for the
  guest and the employee areas the parameters carry the name of the entry view and
  nothing else.
\<close>

theorem router_parameters:
  assumes "token_decoded e username password resp token payload"
    and "find role_tag (authorities_or_empty payload) = Some r"
    and "accepts_writes e"
  shows "routed (new_events e username password s) =
     [(''Main'',
       if str_includes r ''ROLE_GUEST'' then
         \<lparr>route_screen = ''Guests'', params_screen = ''GuestViolation'',
          params_studentNumber = None\<rparr>
       else if str_includes r ''ROLE_EMPLOYEE'' then
         \<lparr>route_screen = ''Employees'', params_screen = ''EmployeeReport'',
          params_studentNumber = None\<rparr>
       else
         \<lparr>route_screen = ''Students'', params_screen = ''StudentViolation'',
          params_studentNumber = Some (normalized (data resp))\<rparr>)]"
  by (simp add: new_events_accepted [OF assms] destination_def)

theorem router_parameters_witness:
  "routed (new_events (server (Text ''2021001234'') (Some ''tok'') (Some [''ROLE_STUDENT'']))
      ''bob'' ''correct'' fresh) =
     [(''Main'', \<lparr>route_screen = ''Students'', params_screen = ''StudentViolation'',
                  params_studentNumber = Some ''2021001234''\<rparr>)]"
proof -
  let ?e = "server (Text ''2021001234'') (Some ''tok'') (Some [''ROLE_STUDENT''])"
  have a: "token_decoded ?e ''bob'' ''correct''
      \<lparr>status = 200, data = Text ''2021001234'', jwt_token = Some ''tok''\<rparr> ''tok''
      \<lparr>authorities = Some [''ROLE_STUDENT'']\<rparr>"
    by (simp add: server_decoded)
  have b: "find role_tag (authorities_or_empty \<lparr>authorities = Some [''ROLE_STUDENT'']\<rparr>) =
      Some ''ROLE_STUDENT''"
    by (simp add: authorities_or_empty_def)
  have c: "accepts_writes ?e" by (rule server_accepts)
  show ?thesis
    using router_parameters [OF a b c, of fresh] by simp
qed

text \<open>
  A guest login resolves and stores the identifier \<open>G-5\<close>, and the router receives no
  identifier: lines 81 to 84 pass \<open>params: { screen: 'GuestViolation' }\<close>.
\<close>

theorem router_parameters_counterexample:
  "writes (new_events (server (Text ''G-5'') (Some ''tok'') (Some [''ROLE_GUEST'']))
      ''gus'' ''pw'' fresh) =
     [(''role'', ''ROLE_GUEST''), (''token'', ''tok''), (''guestId'', ''G-5'')]
   \<and> routed (new_events (server (Text ''G-5'') (Some ''tok'') (Some [''ROLE_GUEST'']))
      ''gus'' ''pw'' fresh) =
     [(''Main'', \<lparr>route_screen = ''Guests'', params_screen = ''GuestViolation'',
                  params_studentNumber = None\<rparr>)]"
  by (simp add: server_new_events id_key_def destination_def)


subsection \<open>What is stored, and when\<close>

text \<open>
  Claim C1, as amended. A session is the role, the token and one identifier slot. When
  the call returned status 200 with a subject identifier and a non-empty token header
  and the decoded claim set has at least one entry that contains \<open>ROLE_\<close>, and the
  store accepts the three writes, the session is written: \<open>role\<close> is the first such
  entry, \<open>token\<close> is the token of the header, and the slot chosen by the role holds the
  subject identifier in its string form. In every other case, whatever the store does,
  no key of the store is written.
\<close>

theorem session_all_or_nothing:
  "(session_conditions e username password \<longrightarrow>
      (\<exists>resp token payload userRole.
         token_decoded e username password resp token payload \<and>
         find role_tag (authorities_or_empty payload) = Some userRole \<and>
         (accepts_session e userRole token (normalized (data resp)) \<longrightarrow>
            writes (new_events e username password s) =
              [(''role'', userRole), (''token'', token),
               (if str_includes userRole ''ROLE_GUEST'' then ''guestId''
                else if str_includes userRole ''ROLE_EMPLOYEE'' then ''employeeNumber''
                else ''studentNumber'', normalized (data resp))] \<and>
            storage (handleLogin e username password s) =
              (storage s)(''role'' \<mapsto> userRole, ''token'' \<mapsto> token,
                 (if str_includes userRole ''ROLE_GUEST'' then ''guestId''
                  else if str_includes userRole ''ROLE_EMPLOYEE'' then ''employeeNumber''
                  else ''studentNumber'') \<mapsto> normalized (data resp)))))
   \<and> (\<not> session_conditions e username password \<longrightarrow>
        writes (new_events e username password s) = [] \<and>
        storage (handleLogin e username password s) = storage s)"
proof (intro conjI impI)
  assume "session_conditions e username password"
  from session_conditions_decoded [OF this] obtain resp token payload r
    where d: "token_decoded e username password resp token payload"
      and r: "find role_tag (authorities_or_empty payload) = Some r" by blast
  have k: "id_key r = (if str_includes r ''ROLE_GUEST'' then ''guestId''
                else if str_includes r ''ROLE_EMPLOYEE'' then ''employeeNumber''
                else ''studentNumber'')"
    by (simp add: id_key_def)
  have "accepts_session e r token (normalized (data resp)) \<longrightarrow>
            writes (new_events e username password s) =
              [(''role'', r), (''token'', token), (id_key r, normalized (data resp))] \<and>
            storage (handleLogin e username password s) =
              (storage s)(''role'' \<mapsto> r, ''token'' \<mapsto> token,
                 id_key r \<mapsto> normalized (data resp))"
  proof
    assume a: "accepts_session e r token (normalized (data resp))"
    show "writes (new_events e username password s) =
              [(''role'', r), (''token'', token), (id_key r, normalized (data resp))] \<and>
            storage (handleLogin e username password s) =
              (storage s)(''role'' \<mapsto> r, ''token'' \<mapsto> token,
                 id_key r \<mapsto> normalized (data resp))"
      by (simp add: new_events_def handleLogin_session [OF d r a])
  qed
  with d r have "token_decoded e username password resp token payload \<and>
         find role_tag (authorities_or_empty payload) = Some r \<and>
         (accepts_session e r token (normalized (data resp)) \<longrightarrow>
            writes (new_events e username password s) =
              [(''role'', r), (''token'', token),
               (if str_includes r ''ROLE_GUEST'' then ''guestId''
                else if str_includes r ''ROLE_EMPLOYEE'' then ''employeeNumber''
                else ''studentNumber'', normalized (data resp))] \<and>
            storage (handleLogin e username password s) =
              (storage s)(''role'' \<mapsto> r, ''token'' \<mapsto> token,
                 (if str_includes r ''ROLE_GUEST'' then ''guestId''
                  else if str_includes r ''ROLE_EMPLOYEE'' then ''employeeNumber''
                  else ''studentNumber'') \<mapsto> normalized (data resp)))"
    unfolding k by simp
  then show "\<exists>resp token payload userRole.
         token_decoded e username password resp token payload \<and>
         find role_tag (authorities_or_empty payload) = Some userRole \<and>
         (accepts_session e userRole token (normalized (data resp)) \<longrightarrow>
            writes (new_events e username password s) =
              [(''role'', userRole), (''token'', token),
               (if str_includes userRole ''ROLE_GUEST'' then ''guestId''
                else if str_includes userRole ''ROLE_EMPLOYEE'' then ''employeeNumber''
                else ''studentNumber'', normalized (data resp))] \<and>
            storage (handleLogin e username password s) =
              (storage s)(''role'' \<mapsto> userRole, ''token'' \<mapsto> token,
                 (if str_includes userRole ''ROLE_GUEST'' then ''guestId''
                  else if str_includes userRole ''ROLE_EMPLOYEE'' then ''employeeNumber''
                  else ''studentNumber'') \<mapsto> normalized (data resp)))"
    by - ((rule exI)+, assumption)
next
  assume n: "\<not> session_conditions e username password"
  from quiet_new_events [OF handleLogin_refused [OF n]]
  show "writes (new_events e username password s) = []" by simp
next
  assume n: "\<not> session_conditions e username password"
  from handleLogin_refused [OF n, of s]
  show "storage (handleLogin e username password s) = storage s" by (simp add: quiet_def)
qed

theorem session_all_or_nothing_witness:
  "session_conditions (server (Text ''2021001234'') (Some ''tok'') (Some [''ROLE_STUDENT'']))
      ''bob'' ''correct''
   \<and> accepts_session (server (Text ''2021001234'') (Some ''tok'') (Some [''ROLE_STUDENT'']))
      ''ROLE_STUDENT'' ''tok'' ''2021001234''
   \<and> writes (new_events (server (Text ''2021001234'') (Some ''tok'') (Some [''ROLE_STUDENT'']))
      ''bob'' ''correct'' fresh) =
      [(''role'', ''ROLE_STUDENT''), (''token'', ''tok''), (''studentNumber'', ''2021001234'')]
   \<and> \<not> session_conditions
        (rejecting ''role'' (server (Text ''2021001234'') (Some ''tok'') (Some [''USER''])))
        ''bob'' ''correct''
   \<and> writes (new_events
        (rejecting ''role'' (server (Text ''2021001234'') (Some ''tok'') (Some [''USER''])))
        ''bob'' ''correct'' fresh) = []
   \<and> storage (handleLogin
        (rejecting ''role'' (server (Text ''2021001234'') (Some ''tok'') (Some [''USER''])))
        ''bob'' ''correct'' fresh) = storage fresh"
proof -
  let ?yes = "server (Text ''2021001234'') (Some ''tok'') (Some [''ROLE_STUDENT''])"
  let ?no = "rejecting ''role'' (server (Text ''2021001234'') (Some ''tok'') (Some [''USER'']))"
  have y: "session_conditions ?yes ''bob'' ''correct''"
    by (simp add: session_conditions_def server_def authorities_or_empty_def)
  have n: "\<not> session_conditions ?no ''bob'' ''correct''"
    by (simp add: session_conditions_def server_def rejecting_def authorities_or_empty_def)
  have acc: "accepts_session ?yes ''ROLE_STUDENT'' ''tok'' ''2021001234''"
    by (rule accepts_writes_session [OF server_accepts])
  note thm_yes = session_all_or_nothing [of ?yes "''bob''" "''correct''" fresh]
  note thm_no = session_all_or_nothing [of ?no "''bob''" "''correct''" fresh]
  from thm_yes y obtain resp :: http_response and token payload userRole
    where d: "token_decoded ?yes ''bob'' ''correct'' resp token payload"
      and r: "find role_tag (authorities_or_empty payload) = Some userRole"
      and w: "accepts_session ?yes userRole token (normalized (data resp)) \<longrightarrow>
            writes (new_events ?yes ''bob'' ''correct'' fresh) =
              [(''role'', userRole), (''token'', token),
               (if str_includes userRole ''ROLE_GUEST'' then ''guestId''
                else if str_includes userRole ''ROLE_EMPLOYEE'' then ''employeeNumber''
                else ''studentNumber'', normalized (data resp))] \<and>
            storage (handleLogin ?yes ''bob'' ''correct'' fresh) =
              (storage fresh)(''role'' \<mapsto> userRole, ''token'' \<mapsto> token,
                 (if str_includes userRole ''ROLE_GUEST'' then ''guestId''
                  else if str_includes userRole ''ROLE_EMPLOYEE'' then ''employeeNumber''
                  else ''studentNumber'') \<mapsto> normalized (data resp))"
    by blast
  from d have resp: "data resp = Text ''2021001234''" and token: "token = ''tok''"
    and payload: "authorities payload = Some [''ROLE_STUDENT'']"
    by (auto simp: token_decoded_def server_def)
  from r payload have role: "userRole = ''ROLE_STUDENT''"
    by (simp add: authorities_or_empty_def)
  from w acc resp token role
  have "writes (new_events ?yes ''bob'' ''correct'' fresh) =
      [(''role'', ''ROLE_STUDENT''), (''token'', ''tok''), (''studentNumber'', ''2021001234'')]"
    by simp
  with y n acc thm_no show ?thesis by blast
qed

text \<open>
  The statement with \<open>exactly one\<close> fails on a claim set with two \<open>ROLE_\<close> entries, for
  which the session is stored all the same. Without the proviso on the store it fails
  too: when the write of \<open>token\<close> is rejected, \<open>role\<close> stays written alone.
\<close>

theorem session_all_or_nothing_counterexample:
  "writes (new_events (server (Text ''E-1007'') (Some ''tok'')
             (Some [''ROLE_EMPLOYEE'', ''ROLE_ADMIN_SHADOW''])) ''eve'' ''pw'' fresh) =
     [(''role'', ''ROLE_EMPLOYEE''), (''token'', ''tok''), (''employeeNumber'', ''E-1007'')]
   \<and> \<not> spec_session_conditions (server (Text ''E-1007'') (Some ''tok'')
             (Some [''ROLE_EMPLOYEE'', ''ROLE_ADMIN_SHADOW''])) ''eve'' ''pw''
   \<and> spec_session_conditions (rejecting ''token''
         (server (Text ''2021001234'') (Some ''tok'') (Some [''ROLE_STUDENT''])))
         ''bob'' ''correct''
   \<and> writes (new_events (rejecting ''token''
         (server (Text ''2021001234'') (Some ''tok'') (Some [''ROLE_STUDENT''])))
         ''bob'' ''correct'' fresh) = [(''role'', ''ROLE_STUDENT'')]
   \<and> storage (handleLogin (rejecting ''token''
         (server (Text ''2021001234'') (Some ''tok'') (Some [''ROLE_STUDENT''])))
         ''bob'' ''correct'' fresh) ''role'' = Some ''ROLE_STUDENT''
   \<and> storage (handleLogin (rejecting ''token''
         (server (Text ''2021001234'') (Some ''tok'') (Some [''ROLE_STUDENT''])))
         ''bob'' ''correct'' fresh) ''token'' = None"
proof -
  have a: "writes (new_events (server (Text ''E-1007'') (Some ''tok'')
             (Some [''ROLE_EMPLOYEE'', ''ROLE_ADMIN_SHADOW''])) ''eve'' ''pw'' fresh) =
     [(''role'', ''ROLE_EMPLOYEE''), (''token'', ''tok''), (''employeeNumber'', ''E-1007'')]"
    by (simp add: server_new_events id_key_def)
  have b: "\<not> spec_session_conditions (server (Text ''E-1007'') (Some ''tok'')
             (Some [''ROLE_EMPLOYEE'', ''ROLE_ADMIN_SHADOW''])) ''eve'' ''pw''"
    by (simp add: spec_session_conditions_def server_def authorities_or_empty_def)
  have c: "spec_session_conditions (rejecting ''token''
         (server (Text ''2021001234'') (Some ''tok'') (Some [''ROLE_STUDENT''])))
         ''bob'' ''correct''"
    by (simp add: spec_session_conditions_def server_def rejecting_def authorities_or_empty_def)
  have d: "handleLogin (rejecting ''token''
         (server (Text ''2021001234'') (Some ''tok'') (Some [''ROLE_STUDENT''])))
         ''bob'' ''correct'' fresh =
       \<lparr>errorMessage = ''Request error. Please try again.'',
        storage = [''role'' \<mapsto> ''ROLE_STUDENT''],
        events = [SetErrorMessage [], SetItem ''role'' ''ROLE_STUDENT'',
                  SetErrorMessage ''Request error. Please try again.'',
                  Alert ''Login Error'' ''Request error. Please try again.'']\<rparr>"
    by (simp add: handleLogin_def try_block_def catch_block_def persist_and_route_def
        effect_defs authorities_or_empty_def plain_error_def server_def rejecting_def
        fresh_def)
  from a b c d show ?thesis by (simp add: new_events_def fresh_def)
qed



text \<open>
  Claim C10. A body that is the number 0 is falsy: the function reports the missing
  subject identifier although a number was present. A number other than 0 is replaced
  by its string form, and that string is what the identifier slot receives: a minus
  sign if the number is negative, then the decimal digits of its magnitude, most
  significant first and without a leading zero. The numbers are the safe integers,
  whose magnitude is below \<open>2^53\<close>.
\<close>

theorem numeric_subject_id:
  assumes "axios_post e username password = Fulfilled resp"
    and "status resp = 200"
    and "data resp = Numeric neg m"
  shows "(m = 0 \<longrightarrow>
            handleLogin e username password s =
              s\<lparr>errorMessage := ''Student number not received from server.'',
                events := events s @ [SetErrorMessage [],
                           SetErrorMessage ''Student number not received from server.'']\<rparr>)
       \<and> (m \<noteq> 0 \<and> jwt_token resp = Some token \<and> token \<noteq> [] \<and>
          jwtDecode e token = Some payload \<and>
          find role_tag (authorities_or_empty payload) = Some userRole \<and>
          accepts_writes e \<longrightarrow>
            (\<exists>ds. ds \<noteq> [] \<and> hd ds \<noteq> CHR ''0'' \<and> read_digits ds 0 = Some (unat m) \<and>
               writes (new_events e username password s) =
                 [(''role'', userRole), (''token'', token),
                  (id_key userRole, (if neg then ''-'' else []) @ ds)] \<and>
               storage (handleLogin e username password s) (id_key userRole) =
                 Some ((if neg then ''-'' else []) @ ds)))"
proof (intro conjI impI)
  assume "m = 0"
  with assms have "falsy (data resp)" by simp
  from handleLogin_missing_id [OF assms(1,2) this]
  show "handleLogin e username password s =
              s\<lparr>errorMessage := ''Student number not received from server.'',
                events := events s @ [SetErrorMessage [],
                           SetErrorMessage ''Student number not received from server.'']\<rparr>" .
next
  assume h: "m \<noteq> 0 \<and> jwt_token resp = Some token \<and> token \<noteq> [] \<and>
          jwtDecode e token = Some payload \<and>
          find role_tag (authorities_or_empty payload) = Some userRole \<and>
          accepts_writes e"
  with assms have d: "token_decoded e username password resp token payload"
    by (simp add: token_decoded_def)
  from h have r: "find role_tag (authorities_or_empty payload) = Some userRole"
    and a: "accepts_writes e" and m: "m \<noteq> 0" by simp_all
  from toString_numeral [OF m, of neg] obtain ds
    where ds: "toString neg m = (if neg then ''-'' else []) @ ds" "ds \<noteq> []"
      "hd ds \<noteq> CHR ''0''" "read_digits ds 0 = Some (unat m)" by blast
  have n: "normalized (data resp) = (if neg then ''-'' else []) @ ds"
    using assms(3) ds(1) by simp
  have w: "writes (new_events e username password s) =
                 [(''role'', userRole), (''token'', token),
                  (id_key userRole, (if neg then ''-'' else []) @ ds)]"
    using n by (simp add: new_events_accepted [OF d r a])
  have st: "storage (handleLogin e username password s) (id_key userRole) =
                 Some ((if neg then ''-'' else []) @ ds)"
    using n by (simp add: handleLogin_accepted [OF d r a])
  from ds(2-4) w st
  show "\<exists>ds. ds \<noteq> [] \<and> hd ds \<noteq> CHR ''0'' \<and> read_digits ds 0 = Some (unat m) \<and>
               writes (new_events e username password s) =
                 [(''role'', userRole), (''token'', token),
                  (id_key userRole, (if neg then ''-'' else []) @ ds)] \<and>
               storage (handleLogin e username password s) (id_key userRole) =
                 Some ((if neg then ''-'' else []) @ ds)"
    by blast
qed

theorem numeric_subject_id_witness:
  "handleLogin (server (Numeric False 0) (Some ''tok'') (Some [''ROLE_STUDENT''])) ''bob''
      ''correct'' fresh =
     \<lparr>errorMessage = ''Student number not received from server.'', storage = Map.empty,
      events = [SetErrorMessage [],
                SetErrorMessage ''Student number not received from server.'']\<rparr>
   \<and> (\<exists>ds. ds \<noteq> [] \<and> hd ds \<noteq> CHR ''0'' \<and> read_digits ds 0 = Some (unat (2021001234 :: 53 word)) \<and>
         writes (new_events (server (Numeric False 2021001234) (Some ''tok'')
             (Some [''ROLE_STUDENT''])) ''bob'' ''correct'' fresh) =
           [(''role'', ''ROLE_STUDENT''), (''token'', ''tok''), (''studentNumber'', ds)])
   \<and> writes (new_events (server (Numeric False 2021001234) (Some ''tok'')
        (Some [''ROLE_STUDENT''])) ''bob'' ''correct'' fresh) =
      [(''role'', ''ROLE_STUDENT''), (''token'', ''tok''), (''studentNumber'', ''2021001234'')]
   \<and> writes (new_events (server (Numeric True 17) (Some ''tok'')
        (Some [''ROLE_STUDENT''])) ''bob'' ''correct'' fresh) =
      [(''role'', ''ROLE_STUDENT''), (''token'', ''tok''), (''studentNumber'', ''-17'')]"
proof -
  let ?zero = "server (Numeric False 0) (Some ''tok'') (Some [''ROLE_STUDENT''])"
  let ?num = "server (Numeric False 2021001234) (Some ''tok'') (Some [''ROLE_STUDENT''])"
  let ?neg = "server (Numeric True 17) (Some ''tok'') (Some [''ROLE_STUDENT''])"
  have a0: "axios_post ?zero ''bob'' ''correct'' =
      Fulfilled \<lparr>status = 200, data = Numeric False 0, jwt_token = Some ''tok''\<rparr>"
    by (simp add: server_def)
  have a1: "axios_post ?num ''bob'' ''correct'' =
      Fulfilled \<lparr>status = 200, data = Numeric False 2021001234, jwt_token = Some ''tok''\<rparr>"
    by (simp add: server_def)
  have first: "handleLogin ?zero ''bob'' ''correct'' fresh =
     \<lparr>errorMessage = ''Student number not received from server.'', storage = Map.empty,
      events = [SetErrorMessage [],
                SetErrorMessage ''Student number not received from server.'']\<rparr>"
    using numeric_subject_id [OF a0, where neg = False and m = 0 and s = fresh]
    by (simp add: fresh_def)
  have second: "\<exists>ds. ds \<noteq> [] \<and> hd ds \<noteq> CHR ''0'' \<and>
         read_digits ds 0 = Some (unat (2021001234 :: 53 word)) \<and>
         writes (new_events ?num ''bob'' ''correct'' fresh) =
           [(''role'', ''ROLE_STUDENT''), (''token'', ''tok''), (''studentNumber'', ds)]"
    using numeric_subject_id [OF a1, where neg = False and m = 2021001234 and token = "''tok''"
        and payload = "\<lparr>authorities = Some [''ROLE_STUDENT'']\<rparr>"
        and userRole = "''ROLE_STUDENT''" and s = fresh]
    by (simp add: server_def server_accepts [unfolded server_def] authorities_or_empty_def
        id_key_def) blast
  have third: "writes (new_events ?num ''bob'' ''correct'' fresh) =
      [(''role'', ''ROLE_STUDENT''), (''token'', ''tok''), (''studentNumber'', ''2021001234'')]"
    by (simp add: server_new_events id_key_def toString_def digits.simps digit_char_def)
  have fourth: "writes (new_events ?neg ''bob'' ''correct'' fresh) =
      [(''role'', ''ROLE_STUDENT''), (''token'', ''tok''), (''studentNumber'', ''-17'')]"
    by (simp add: server_new_events id_key_def toString_def digits.simps digit_char_def)
  from first second third fourth show ?thesis by blast
qed

end
